theory Spec2Isabelle
  imports Complex_Main
begin

section \<open>JavaScript values\<close>

text \<open>
  The comparator library is TypeScript; at run time its functions receive arbitrary
  JavaScript values. Numbers are IEEE doubles: every finite double is a rational, and the
  source only tests numbers with \<open>==\<close>, \<open>!=\<close>, \<open>>\<close> and truthiness, all of which
  are exact on rationals, so a number is \<open>NaN\<close>, an infinity or a finite rational.
  (\<open>-0\<close> and \<open>+0\<close> behave alike under each of these operators and are one value here.)
\<close>

datatype jsnum = NaN | NegInf | Fin rat | PosInf

text \<open>
  Primitive values, and values in general: a primitive, a function (named by its index
  in the engine's function table) or an object (its reference and its properties; the
  property list stands for everything a property read on the object finds, own or
  inherited). Strings are strings of 8-bit characters.
\<close>

datatype prim = Undefined | Null | Bool bool | Num jsnum | Str string

datatype jsval = Prim prim | Fun nat | Obj nat "(string \<times> jsval) list"

text \<open>
  What a \<open>throw\<close> carries: a \<open>TypeError\<close> of the engine (calling what is not a
  function, reading a property of \<open>null\<close> or \<open>undefined\<close>, serialising a circular
  structure), the builder's own
  \<open>Error('Unknown compare operation ' + JSON.stringify(x))\<close> (kept with the
  serialisation that ends its message), or a value thrown by a function the caller
  supplied.
\<close>

datatype error = TypeError | UnknownCompareOperation string | Thrown jsval

text \<open>
  A comparison may run caller code (a compare function, a \<open>compareTo\<close> method), which
  can have effects and can throw: it takes the state of the world and returns the
  outcome with the new state.
\<close>

type_synonym 's CompareFn = "jsval \<Rightarrow> jsval \<Rightarrow> 's \<Rightarrow> (error + jsnum) \<times> 's"

datatype hint = HintDefault | HintNumber

text \<open>
  The parts of the JavaScript engine the source relies on and that are not code of the
  library: \<open>String.prototype.localeCompare\<close> with locale \<open>'standard'\<close> and
  sensitivity \<open>'case'\<close>, the conversion of a string to a number, the conversion of an
  object or function to a primitive (by its \<open>valueOf\<close>/\<open>toString\<close>, taken to be
  pure and to return a primitive), the properties found on a function or a boxed
  primitive, the table of the functions that function values name, and
  \<open>JSON.stringify\<close>. A function of the table takes two arguments (for a method call,
  the receiver and the argument) and returns a number or throws a value.
  \<open>jsonStringify\<close> gives the text that \<open>JSON.stringify(x)\<close> puts into a template
  literal; it runs the \<open>toJSON\<close> methods and getters of \<open>x\<close>, so it can change the
  state, and it can throw (a \<open>TypeError\<close> on a circular structure, or what a
  \<open>toJSON\<close> throws).
\<close>

record 's engine =
  localeCompare :: "string \<Rightarrow> string \<Rightarrow> jsnum"
  stringToNumber :: "string \<Rightarrow> jsnum"
  toPrimitive :: "hint \<Rightarrow> jsval \<Rightarrow> prim"
  boxedProp :: "jsval \<Rightarrow> string \<Rightarrow> jsval"
  callFn :: "nat \<Rightarrow> jsval \<Rightarrow> jsval \<Rightarrow> 's \<Rightarrow> (jsval + jsnum) \<times> 's"
  jsonStringify :: "jsval \<Rightarrow> 's \<Rightarrow> (error + string) \<times> 's"

subsection \<open>Operators of the language\<close>

text \<open>\<open>x == null\<close>: true of \<open>null\<close> and \<open>undefined\<close> only.\<close>

fun nullish :: "jsval \<Rightarrow> bool" where
  "nullish (Prim Undefined) = True"
| "nullish (Prim Null) = True"
| "nullish _ = False"

text \<open>Truthiness (\<open>!x\<close> is its negation).\<close>

fun truthy :: "jsval \<Rightarrow> bool" where
  "truthy (Prim Undefined) = False"
| "truthy (Prim Null) = False"
| "truthy (Prim (Bool b)) = b"
| "truthy (Prim (Num NaN)) = False"
| "truthy (Prim (Num (Fin r))) = (r \<noteq> 0)"
| "truthy (Prim (Num _)) = True"
| "truthy (Prim (Str s)) = (s \<noteq> [])"
| "truthy (Fun _) = True"
| "truthy (Obj _ _) = True"

fun typeof :: "jsval \<Rightarrow> string" where
  "typeof (Prim Undefined) = ''undefined''"
| "typeof (Prim Null) = ''object''"
| "typeof (Prim (Bool _)) = ''boolean''"
| "typeof (Prim (Num _)) = ''number''"
| "typeof (Prim (Str _)) = ''string''"
| "typeof (Fun _) = ''function''"
| "typeof (Obj _ _) = ''object''"

text \<open>Equality and order of numbers: every comparison with \<open>NaN\<close> is false.\<close>

fun num_eq :: "jsnum \<Rightarrow> jsnum \<Rightarrow> bool" where
  "num_eq NaN _ = False"
| "num_eq _ NaN = False"
| "num_eq a b = (a = b)"

fun num_lt :: "jsnum \<Rightarrow> jsnum \<Rightarrow> bool" where
  "num_lt NaN _ = False"
| "num_lt _ NaN = False"
| "num_lt (Fin a) (Fin b) = (a < b)"
| "num_lt NegInf b = (b \<noteq> NegInf)"
| "num_lt a PosInf = (a \<noteq> PosInf)"
| "num_lt _ _ = False"

text \<open>\<open>ToNumber\<close> of a primitive.\<close>

fun to_number :: "'s engine \<Rightarrow> prim \<Rightarrow> jsnum" where
  "to_number eng Undefined = NaN"
| "to_number eng Null = Fin 0"
| "to_number eng (Bool b) = Fin (if b then 1 else 0)"
| "to_number eng (Num n) = n"
| "to_number eng (Str s) = stringToNumber eng s"

text \<open>Strings are ordered by their code units, the shorter of two prefixes first.\<close>

fun str_lt :: "string \<Rightarrow> string \<Rightarrow> bool" where
  "str_lt [] [] = False"
| "str_lt [] (y # ys) = True"
| "str_lt (x # xs) [] = False"
| "str_lt (x # xs) (y # ys) =
     ((of_char x :: nat) < of_char y \<or> (x = y \<and> str_lt xs ys))"

text \<open>
  \<open>==\<close> on primitives of which at least one is neither \<open>null\<close> nor
  \<open>undefined\<close>: two strings compare as strings, anything else as numbers, and
  \<open>null\<close> or \<open>undefined\<close> equals nothing else.
\<close>

fun prim_eq :: "'s engine \<Rightarrow> prim \<Rightarrow> prim \<Rightarrow> bool" where
  "prim_eq eng Undefined q = (q = Undefined \<or> q = Null)"
| "prim_eq eng Null q = (q = Undefined \<or> q = Null)"
| "prim_eq eng p Undefined = False"
| "prim_eq eng p Null = False"
| "prim_eq eng (Str s) (Str t) = (s = t)"
| "prim_eq eng p q = num_eq (to_number eng p) (to_number eng q)"

text \<open>
  \<open>a == b\<close>, the loose equality: two objects or functions are equal when they are
  the same reference; \<open>null\<close> and \<open>undefined\<close> equal each other and nothing else; an
  object against a primitive is converted to a primitive first.
\<close>

fun loose_eq :: "'s engine \<Rightarrow> jsval \<Rightarrow> jsval \<Rightarrow> bool" where
  "loose_eq eng (Prim p) (Prim q) = prim_eq eng p q"
| "loose_eq eng (Obj i _) (Obj j _) = (i = j)"
| "loose_eq eng (Fun f) (Fun g) = (f = g)"
| "loose_eq eng (Obj _ _) (Fun _) = False"
| "loose_eq eng (Fun _) (Obj _ _) = False"
| "loose_eq eng (Prim p) b =
     (if nullish (Prim p) then False else prim_eq eng p (toPrimitive eng HintDefault b))"
| "loose_eq eng a (Prim q) =
     (if nullish (Prim q) then False else prim_eq eng (toPrimitive eng HintDefault a) q)"

text \<open>
  \<open>a > b\<close>: both operands are converted to primitives (hint number); two strings
  compare by code units, anything else as numbers.
\<close>

fun to_prim :: "'s engine \<Rightarrow> hint \<Rightarrow> jsval \<Rightarrow> prim" where
  "to_prim eng h (Prim p) = p"
| "to_prim eng h v = toPrimitive eng h v"

fun prim_gt :: "'s engine \<Rightarrow> prim \<Rightarrow> prim \<Rightarrow> bool" where
  "prim_gt eng (Str s) (Str t) = str_lt t s"
| "prim_gt eng p q = num_lt (to_number eng q) (to_number eng p)"

definition js_gt :: "'s engine \<Rightarrow> jsval \<Rightarrow> jsval \<Rightarrow> bool" where
  "js_gt eng a b = prim_gt eng (to_prim eng HintNumber a) (to_prim eng HintNumber b)"

text \<open>
  Reading a property: of \<open>null\<close> or \<open>undefined\<close> it throws, of an object it gives the
  property's value or \<open>undefined\<close>, of anything else what the engine finds.
\<close>

definition obj_prop :: "(string \<times> jsval) list \<Rightarrow> string \<Rightarrow> jsval" where
  "obj_prop props p = (case map_of props p of None \<Rightarrow> Prim Undefined | Some v \<Rightarrow> v)"

fun get_prop :: "'s engine \<Rightarrow> jsval \<Rightarrow> string \<Rightarrow> error + jsval" where
  "get_prop eng (Prim Undefined) p = Inl TypeError"
| "get_prop eng (Prim Null) p = Inl TypeError"
| "get_prop eng (Obj _ props) p = Inr (obj_prop props p)"
| "get_prop eng v p = Inr (boxedProp eng v p)"

text \<open>
  Calling a value with two arguments: a function runs, and what it throws is caught as
  \<open>Thrown\<close>; anything else is not callable.
\<close>

fun call_value :: "'s engine \<Rightarrow> jsval \<Rightarrow> 's CompareFn" where
  "call_value eng (Fun f) a b s =
     (case callFn eng f a b s of
        (Inl ex, s') \<Rightarrow> (Inl (Thrown ex), s')
      | (Inr n, s') \<Rightarrow> (Inr n, s'))"
| "call_value eng _ a b s = (Inl TypeError, s)"

section \<open>comparator.ts\<close>

text \<open>
  \<open>isComparable(o)\<close> is \<open>o && typeof o === 'object' && o.compareTo !== null\<close>, and
  \<open>isComparator(o)\<close> is \<open>o && typeof o === 'object' && o.compare != null\<close>; both are
  used as conditions. The first tests with the strict \<open>!==\<close>, the second with the
  loose \<open>!=\<close>. The property is read only once the first two conjuncts hold, and a
  truthy value whose \<open>typeof\<close> is \<open>'object'\<close> is an object.
\<close>

definition isComparable :: "jsval \<Rightarrow> bool" where
  "isComparable o' =
     (truthy o' \<and> typeof o' = ''object''
        \<and> (case o' of Obj _ props \<Rightarrow> obj_prop props ''compareTo'' \<noteq> Prim Null | _ \<Rightarrow> False))"

definition isComparator :: "jsval \<Rightarrow> bool" where
  "isComparator o' =
     (truthy o' \<and> typeof o' = ''object''
        \<and> (case o' of Obj _ props \<Rightarrow> \<not> nullish (obj_prop props ''compare'') | _ \<Rightarrow> False))"

text \<open>\<open>NaturalOrder(o1, o2)\<close>, branch by branch.\<close>

definition NaturalOrder :: "'s engine \<Rightarrow> 's CompareFn" where
  "NaturalOrder eng o1 o2 s =
     (if loose_eq eng o1 o2 then (Inr (Fin 0), s)
      else if nullish o1 then (Inr (Fin (- 1)), s)
      else if nullish o2 then (Inr (Fin 1), s)
      else if isComparable o1 \<and> isComparable o2 then
        (case o1 of
           Obj _ props \<Rightarrow> call_value eng (obj_prop props ''compareTo'') o1 o2 s
         | _ \<Rightarrow> (Inl TypeError, s))
      else
        (case (o1, o2) of
           (Prim (Str s1), Prim (Str s2)) \<Rightarrow> (Inr (localeCompare eng s1 s2), s)
         | _ \<Rightarrow> (Inr (if js_gt eng o2 o1 then Fin (- 1) else Fin 1), s)))"

definition ReverseNaturalOrder :: "'s engine \<Rightarrow> 's CompareFn" where
  "ReverseNaturalOrder eng o1 o2 s = NaturalOrder eng o2 o1 s"

section \<open>comparator-builder.ts\<close>

text \<open>
  \<open>CompareWithProp\<close>: an optional property and a compare function. The builder's
  state is its \<open>comparatorChain\<close>, the array of these that its operations push to.
\<close>

record 's CompareWithProp =
  compareProp :: "string option"
  compare :: "'s CompareFn"

type_synonym 's chain = "'s CompareWithProp list"

text \<open>\<open>_compareKeyValue(o1, o2, {compareProp, compare})\<close>.\<close>

definition compareKeyValue ::
  "'s engine \<Rightarrow> jsval \<Rightarrow> jsval \<Rightarrow> 's CompareWithProp \<Rightarrow> 's \<Rightarrow> (error + jsnum) \<times> 's" where
  "compareKeyValue eng o1 o2 e s =
     (case compareProp e of
        None \<Rightarrow> compare e o1 o2 s
      | Some p \<Rightarrow>
          (case get_prop eng o1 p of
             Inl err \<Rightarrow> (Inl err, s)
           | Inr o1Element \<Rightarrow>
               (case get_prop eng o2 p of
                  Inl err \<Rightarrow> (Inl err, s)
                | Inr o2Element \<Rightarrow> compare e o1Element o2Element s)))"

text \<open>The members the proxy's \<open>get\<close> trap tells apart, by the name asked for.\<close>

datatype member =
  M_getComparatorChain | M_compare | M_reversed | M_thenComparing | M_field string

definition proxy_get :: "string \<Rightarrow> member" where
  "proxy_get prop =
     (if prop = ''getComparatorChain'' then M_getComparatorChain
      else if prop = ''compare'' then M_compare
      else if prop = ''reversed'' then M_reversed
      else if prop = ''thenComparing'' then M_thenComparing
      else M_field prop)"

text \<open>\<open>comparatorBuilder()\<close> starts from the empty chain.\<close>

definition comparatorBuilder :: "'s chain" where
  "comparatorBuilder = []"


text \<open>
  \<open>compare(o1, o2)\<close>: the \<open>for\<close> loop over the rest of the chain, then the member
  itself. \<open>initial != 0\<close> is the loose inequality of numbers.
\<close>

fun compare_rest ::
  "'s engine \<Rightarrow> jsval \<Rightarrow> jsval \<Rightarrow> 's chain \<Rightarrow> jsnum \<Rightarrow> 's \<Rightarrow> (error + jsnum) \<times> 's" where
  "compare_rest eng o1 o2 [] initial s = (Inr initial, s)"
| "compare_rest eng o1 o2 (val # rest) initial s =
     (if \<not> num_eq initial (Fin 0) then (Inr initial, s)
      else
        (case compareKeyValue eng o1 o2 val s of
           (Inl err, s') \<Rightarrow> (Inl err, s')
         | (Inr next, s') \<Rightarrow> compare_rest eng o1 o2 rest next s'))"

definition builder_compare :: "'s engine \<Rightarrow> 's chain \<Rightarrow> 's CompareFn" where
  "builder_compare eng comparatorChain o1 o2 s =
     (case comparatorChain of
        [] \<Rightarrow> (Inr (Fin 0), s)
      | first # rest \<Rightarrow>
          (case compareKeyValue eng o1 o2 first s of
             (Inl err, s') \<Rightarrow> (Inl err, s')
           | (Inr initial, s') \<Rightarrow> compare_rest eng o1 o2 rest initial s'))"


text \<open>
  \<open>thenComparing(comparator)\<close> reads \<open>comparator.compare\<close> (which throws on
  \<open>null\<close> and \<open>undefined\<close>) and pushes it, with no property.
\<close>

definition thenComparing :: "'s engine \<Rightarrow> jsval \<Rightarrow> 's chain \<Rightarrow> error + 's chain" where
  "thenComparing eng comparator comparatorChain =
     (case get_prop eng comparator ''compare'' of
        Inl err \<Rightarrow> Inl err
      | Inr c \<Rightarrow>
          Inr (comparatorChain @ [\<lparr>compareProp = None, compare = call_value eng c\<rparr>]))"

text \<open>
  The default member, a field operation. It pushes an entry for the property and returns
  the builder; the argument \<open>x\<close> is only looked at inside the entry's compare function,
  when that function runs. Its last branch evaluates \<open>JSON.stringify(x)\<close> for the
  message before it throws.
\<close>

definition fieldCompare :: "'s engine \<Rightarrow> jsval \<Rightarrow> 's CompareFn" where
  "fieldCompare eng x o1 o2 s =
     (if \<not> truthy x then NaturalOrder eng o1 o2 s
      else if typeof x = ''function'' then call_value eng x o1 o2 s
      else if isComparator x then
        (case x of
           Obj _ props \<Rightarrow> call_value eng (obj_prop props ''compare'') o1 o2 s
         | _ \<Rightarrow> (Inl TypeError, s))
      else
        (case jsonStringify eng x s of
           (Inl err, s') \<Rightarrow> (Inl err, s')
         | (Inr msg, s') \<Rightarrow> (Inl (UnknownCompareOperation msg), s')))"

definition fieldOp :: "'s engine \<Rightarrow> string \<Rightarrow> jsval \<Rightarrow> 's chain \<Rightarrow> error + 's chain" where
  "fieldOp eng prop x comparatorChain =
     Inr (comparatorChain @ [\<lparr>compareProp = Some prop, compare = fieldCompare eng x\<rparr>])"

section \<open>Definitions used to state and to evaluate the properties\<close>

text \<open>
  The state reached when every entry of a chain, run in order from state \<open>s\<close>, returns
  normally a result equal to 0; \<open>None\<close> when one of them throws or returns anything
  else.
\<close>

fun all_equal :: "'s engine \<Rightarrow> jsval \<Rightarrow> jsval \<Rightarrow> 's chain \<Rightarrow> 's \<Rightarrow> 's option" where
  "all_equal eng o1 o2 [] s = Some s"
| "all_equal eng o1 o2 (e # es) s =
     (case compareKeyValue eng o1 o2 e s of
        (Inl err, s') \<Rightarrow> None
      | (Inr r, s') \<Rightarrow> if num_eq r (Fin 0) then all_equal eng o1 o2 es s' else None)"

text \<open>
  An engine for evaluating the definitions on concrete inputs. Its state counts the calls
  of a counting stub. Function 0 returns 5 whatever it is given, function 1 is the
  counting stub and returns 0, and every other function throws. Strings compare by code
  units; of the conversions of strings to numbers it knows the empty string only, and
  every object converts to the string of a plain object; functions and boxed primitives
  have no property. \<open>JSON.stringify\<close> of an object whose \<open>toJSON\<close> is a function
  calls it (with the object and the key, the empty string) and serialises its result or
  throws what it throws; otherwise it knows the number 42 and takes an object as having
  nothing to serialise. (The evaluations below convert no string and no object, and
  serialise nothing else.)
\<close>

definition example_callFn :: "nat \<Rightarrow> jsval \<Rightarrow> jsval \<Rightarrow> nat \<Rightarrow> (jsval + jsnum) \<times> nat" where
  "example_callFn f a b n =
     (if f = 0 then (Inr (Fin 5), n)
      else if f = 1 then (Inr (Fin 0), Suc n)
      else (Inl (Prim (Str ''not defined'')), n))"

definition example_stringify :: "jsval \<Rightarrow> nat \<Rightarrow> (error + string) \<times> nat" where
  "example_stringify v n =
     (case v of
        Obj _ props \<Rightarrow>
          (case obj_prop props ''toJSON'' of
             Fun f \<Rightarrow>
               (case example_callFn f v (Prim (Str [])) n of
                  (Inl ex, n') \<Rightarrow> (Inl (Thrown ex), n')
                | (Inr r, n') \<Rightarrow> (Inr (if r = Fin 5 then ''5'' else ''0''), n'))
           | _ \<Rightarrow> (Inr ''{}'', n))
      | _ \<Rightarrow> (Inr ''42'', n))"

definition example_engine :: "nat engine" where
  "example_engine =
     \<lparr>localeCompare =
        (\<lambda>a b. if str_lt a b then Fin (- 1) else if str_lt b a then Fin 1 else Fin 0),
      stringToNumber = (\<lambda>s. if s = [] then Fin 0 else NaN),
      toPrimitive = (\<lambda>h v. Str ''[object Object]''),
      boxedProp = (\<lambda>v p. Prim Undefined),
      callFn = example_callFn,
      jsonStringify = example_stringify\<rparr>"

section \<open>Natural order\<close>

lemma prim_not_comparable: "\<not> isComparable (Prim p)"
  by (simp add: isComparable_def)

text \<open>
  C2. For non-null values that are not loosely equal, \<open>NaturalOrder(a, b)\<close> should
  call \<open>a.compareTo(b)\<close> only when both values have a \<open>compareTo\<close> method, and two
  objects without one should reach the primitive branch and give -1 or 1. The code does
  not: \<open>isComparable\<close> tests \<open>compareTo !== null\<close>, which \<open>undefined\<close> passes, so
  two distinct plain objects are taken as comparable and the call of the missing method
  throws a \<open>TypeError\<close>.
\<close>

theorem NaturalOrder_plain_objects:
  "NaturalOrder eng (Obj 1 [(''a'', Prim (Num (Fin 1)))]) (Obj 2 [(''a'', Prim (Num (Fin 2)))]) s
     = (Inl TypeError, s)"
  by (simp add: NaturalOrder_def isComparable_def obj_prop_def)

lemma loose_eq_refl: "x \<noteq> Prim (Num NaN) \<Longrightarrow> loose_eq eng x x"
proof (cases x)
  case (Prim p)
  assume "x \<noteq> Prim (Num NaN)"
  with Prim show ?thesis
  proof (cases p)
    case (Num n)
    with Prim \<open>x \<noteq> Prim (Num NaN)\<close> show ?thesis by (cases n) simp_all
  qed simp_all
qed simp_all

text \<open>
  C7, as amended. For every value \<open>x\<close> other than \<open>NaN\<close>, \<open>NaturalOrder(x, x)\<close>
  returns 0, by the equality test that comes first. (\<open>NaN\<close> is not loosely equal to
  itself: it falls through to the last branch, which returns 1.)
\<close>

theorem NaturalOrder_reflexive:
  "x \<noteq> Prim (Num NaN) \<Longrightarrow> NaturalOrder eng x x s = (Inr (Fin 0), s)"
  by (simp add: NaturalOrder_def loose_eq_refl)

theorem NaturalOrder_reflexive_witness:
  "Prim (Num (Fin 3)) \<noteq> Prim (Num NaN)
   \<and> NaturalOrder example_engine (Prim (Num (Fin 3))) (Prim (Num (Fin 3))) 0 = (Inr (Fin 0), 0)
   \<and> NaturalOrder example_engine (Prim (Str ''apple'')) (Prim (Str ''apple'')) 0 = (Inr (Fin 0), 0)
   \<and> NaturalOrder example_engine (Obj 1 []) (Obj 1 []) 0 = (Inr (Fin 0), 0)"
  using NaturalOrder_reflexive [of "Prim (Num (Fin 3))" example_engine 0]
    NaturalOrder_reflexive [of "Prim (Str ''apple'')" example_engine 0]
    NaturalOrder_reflexive [of "Obj 1 []" example_engine 0]
  by simp

theorem NaturalOrder_NaN_counterexample:
  "NaturalOrder example_engine (Prim (Num NaN)) (Prim (Num NaN)) 0 = (Inr (Fin 1), 0)"
  by (simp add: NaturalOrder_def isComparable_def js_gt_def)

lemma num_lt_total:
  "n \<noteq> NaN \<Longrightarrow> m \<noteq> NaN \<Longrightarrow> \<not> num_eq n m \<Longrightarrow> num_lt n m \<noteq> num_lt m n"
  by (cases n; cases m) auto

lemma num_eq_sym: "num_eq a b = num_eq b a"
  by (cases a; cases b) auto

lemma prim_eq_sym: "prim_eq eng p q = prim_eq eng q p"
  by (cases p; cases q) (auto simp: num_eq_sym)

lemma prim_eq_numeric:
  assumes "\<not> nullish (Prim p)" "\<not> nullish (Prim q)"
    and "typeof (Prim p) \<noteq> ''string'' \<or> typeof (Prim q) \<noteq> ''string''"
  shows "prim_eq eng p q = num_eq (to_number eng p) (to_number eng q)"
  using assms by (cases p; cases q) simp_all

lemma NaturalOrder_prim:
  assumes "\<not> nullish (Prim p)" "\<not> nullish (Prim q)" "\<not> loose_eq eng (Prim p) (Prim q)"
    and "typeof (Prim p) \<noteq> ''string'' \<or> typeof (Prim q) \<noteq> ''string''"
  shows "NaturalOrder eng (Prim p) (Prim q) s =
           (Inr (if num_lt (to_number eng p) (to_number eng q) then Fin (- 1) else Fin 1), s)"
  using assms
  by (cases p; cases q) (simp_all add: NaturalOrder_def prim_not_comparable js_gt_def)

text \<open>
  C8, as amended. For every pair of primitive values \<open>a\<close> and \<open>b\<close> that are not null
  or undefined, not loosely equal, not both strings, and neither of which converts to
  \<open>NaN\<close>, one of \<open>NaturalOrder(a, b)\<close> and \<open>NaturalOrder(b, a)\<close> is -1 and the other is
  1. (Two strings get what \<open>localeCompare\<close> returns and two objects what
  \<open>compareTo\<close> returns; nothing is stated about them.)
\<close>

theorem NaturalOrder_antisymmetric:
  assumes "\<not> nullish (Prim p)" and "\<not> nullish (Prim q)"
    and "\<not> loose_eq eng (Prim p) (Prim q)"
    and "typeof (Prim p) \<noteq> ''string'' \<or> typeof (Prim q) \<noteq> ''string''"
    and "to_number eng p \<noteq> NaN" and "to_number eng q \<noteq> NaN"
  shows "(NaturalOrder eng (Prim p) (Prim q) s = (Inr (Fin (- 1)), s)
            \<and> NaturalOrder eng (Prim q) (Prim p) s = (Inr (Fin 1), s))
       \<or> (NaturalOrder eng (Prim p) (Prim q) s = (Inr (Fin 1), s)
            \<and> NaturalOrder eng (Prim q) (Prim p) s = (Inr (Fin (- 1)), s))"
proof -
  from assms(3) have ne: "\<not> prim_eq eng p q" by simp
  then have ne': "\<not> loose_eq eng (Prim q) (Prim p)" by (simp add: prim_eq_sym)
  from ne have "\<not> num_eq (to_number eng p) (to_number eng q)"
    by (simp add: prim_eq_numeric [OF assms(1,2,4)])
  then have tot: "num_lt (to_number eng p) (to_number eng q)
      \<noteq> num_lt (to_number eng q) (to_number eng p)"
    by (rule num_lt_total [OF assms(5,6)])
  have 1: "NaturalOrder eng (Prim p) (Prim q) s =
      (Inr (if num_lt (to_number eng p) (to_number eng q) then Fin (- 1) else Fin 1), s)"
    by (rule NaturalOrder_prim [OF assms(1,2,3,4)])
  have 2: "NaturalOrder eng (Prim q) (Prim p) s =
      (Inr (if num_lt (to_number eng q) (to_number eng p) then Fin (- 1) else Fin 1), s)"
    using assms(4) by (intro NaturalOrder_prim assms(1,2) ne') auto
  from tot show ?thesis unfolding 1 2 by auto
qed

theorem NaturalOrder_antisymmetric_witness:
  "\<not> nullish (Prim (Num (Fin 1))) \<and> \<not> nullish (Prim (Bool False))
   \<and> \<not> loose_eq example_engine (Prim (Num (Fin 1))) (Prim (Bool False))
   \<and> typeof (Prim (Num (Fin 1))) \<noteq> ''string''
   \<and> to_number example_engine (Num (Fin 1)) \<noteq> NaN
   \<and> to_number example_engine (Bool False) \<noteq> NaN
   \<and> NaturalOrder example_engine (Prim (Num (Fin 1))) (Prim (Bool False)) 0 = (Inr (Fin 1), 0)
   \<and> NaturalOrder example_engine (Prim (Bool False)) (Prim (Num (Fin 1))) 0 = (Inr (Fin (- 1)), 0)"
  using NaturalOrder_antisymmetric [of "Num (Fin 1)" "Bool False" example_engine 0]
  by (simp add: NaturalOrder_def isComparable_def js_gt_def)

theorem NaturalOrder_antisymmetric_counterexample:
  "\<not> nullish (Prim (Num NaN)) \<and> \<not> nullish (Prim (Num (Fin 1)))
   \<and> \<not> loose_eq example_engine (Prim (Num NaN)) (Prim (Num (Fin 1)))
   \<and> NaturalOrder example_engine (Prim (Num NaN)) (Prim (Num (Fin 1))) 0 = (Inr (Fin 1), 0)
   \<and> NaturalOrder example_engine (Prim (Num (Fin 1))) (Prim (Num NaN)) 0 = (Inr (Fin 1), 0)"
  by (simp add: NaturalOrder_def isComparable_def js_gt_def)

section \<open>Evaluating the chain\<close>

lemma compare_rest_nonzero:
  "\<not> num_eq r (Fin 0) \<Longrightarrow> compare_rest eng o1 o2 rest r s = (Inr r, s)"
  by (cases rest) simp_all

lemma builder_compare_rest:
  "chain \<noteq> [] \<Longrightarrow>
     builder_compare eng chain o1 o2 s = compare_rest eng o1 o2 chain (Fin 0) s"
  by (cases chain) (simp_all add: builder_compare_def)

lemma num_eq_zero: "num_eq r (Fin 0) \<Longrightarrow> r = Fin 0"
  by (cases r) simp_all

lemma compare_rest_prefix:
  assumes "all_equal eng o1 o2 pre s = Some s1"
    and "compareKeyValue eng o1 o2 e s1 = (Inr r, s2)"
    and "\<not> num_eq r (Fin 0)"
  shows "compare_rest eng o1 o2 (pre @ e # post) (Fin 0) s = (Inr r, s2)"
  using assms
proof (induction pre arbitrary: s)
  case Nil
  then show ?case by (simp add: compare_rest_nonzero)
next
  case (Cons a pre)
  obtain res s' where step: "compareKeyValue eng o1 o2 a s = (res, s')"
    by (cases "compareKeyValue eng o1 o2 a s")
  with Cons.prems(1) obtain q where res: "res = Inr q" and q: "num_eq q (Fin 0)"
    and rest: "all_equal eng o1 o2 pre s' = Some s1"
    by (cases res) (auto split: if_splits)
  from q have "q = Fin 0" by (rule num_eq_zero)
  with step res Cons.IH [OF rest Cons.prems(2,3)] show ?case by simp
qed

lemma compare_single:
  "builder_compare eng [e] o1 o2 s = compareKeyValue eng o1 o2 e s"
  by (cases "compareKeyValue eng o1 o2 e s") (auto simp: builder_compare_def split: sum.splits)

lemma compare_field_objects:
  "builder_compare eng [\<lparr>compareProp = Some f, compare = c\<rparr>] (Obj i ps1) (Obj j ps2) s
     = c (obj_prop ps1 f) (obj_prop ps2 f) s"
  by (simp add: compare_single compareKeyValue_def)

text \<open>
  C5. On a builder whose chain has no entry, \<open>compare\<close> returns 0 for every pair of
  inputs, and raises nothing. The chain of a new builder is such a chain.
\<close>

theorem compare_empty_chain:
  "builder_compare eng [] o1 o2 s = (Inr (Fin 0), s)
   \<and> builder_compare eng comparatorBuilder o1 o2 s = (Inr (Fin 0), s)"
  by (simp add: builder_compare_def comparatorBuilder_def)

text \<open>
  C3. \<open>compare\<close> runs the entries in the order of the chain and returns the result of
  the first one that is not 0: when the entries before an entry \<open>e\<close> all return 0,
  leaving the state \<open>s1\<close>, and \<open>e\<close> then returns \<open>r\<close>, not 0, leaving the state
  \<open>s2\<close>, \<open>compare\<close> returns \<open>r\<close> and leaves \<open>s2\<close>, whatever entries follow
  \<open>e\<close>: none of them has run.
\<close>

theorem compare_short_circuits:
  assumes "all_equal eng o1 o2 pre s = Some s1"
    and "compareKeyValue eng o1 o2 e s1 = (Inr r, s2)"
    and "\<not> num_eq r (Fin 0)"
  shows "builder_compare eng (pre @ e # post) o1 o2 s = (Inr r, s2)"
  using compare_rest_prefix [OF assms] by (simp add: builder_compare_rest)

theorem compare_short_circuits_witness:
  "all_equal example_engine (Obj 1 []) (Obj 2 [])
     [\<lparr>compareProp = None, compare = call_value example_engine (Fun 1)\<rparr>] 0 = Some 1
   \<and> compareKeyValue example_engine (Obj 1 []) (Obj 2 [])
       \<lparr>compareProp = None, compare = call_value example_engine (Fun 0)\<rparr> 1 = (Inr (Fin 5), 1)
   \<and> \<not> num_eq (Fin 5) (Fin 0)
   \<and> builder_compare example_engine
       ([\<lparr>compareProp = None, compare = call_value example_engine (Fun 1)\<rparr>]
          @ \<lparr>compareProp = None, compare = call_value example_engine (Fun 0)\<rparr>
          # [\<lparr>compareProp = None, compare = call_value example_engine (Fun 1)\<rparr>,
             \<lparr>compareProp = None, compare = call_value example_engine (Fun 2)\<rparr>])
       (Obj 1 []) (Obj 2 []) 0 = (Inr (Fin 5), 1)"
  using compare_short_circuits [of example_engine "Obj 1 []" "Obj 2 []"
      "[\<lparr>compareProp = None, compare = call_value example_engine (Fun 1)\<rparr>]" 0 1
      "\<lparr>compareProp = None, compare = call_value example_engine (Fun 0)\<rparr>" "Fin 5" 1
      "[\<lparr>compareProp = None, compare = call_value example_engine (Fun 1)\<rparr>,
        \<lparr>compareProp = None, compare = call_value example_engine (Fun 2)\<rparr>]"]
  by (simp add: compareKeyValue_def example_engine_def example_callFn_def)


section \<open>Field operations\<close>

lemma fieldCompare_omitted: "fieldCompare eng (Prim Undefined) = NaturalOrder eng"
  by (intro ext) (simp add: fieldCompare_def)

text \<open>
  C6. With a chain of one field entry made with no argument, \<open>compare(o1, o2)\<close> is
  \<open>NaturalOrder\<close> of the two values of the field.
\<close>

theorem single_field_is_NaturalOrder:
  assumes "proxy_get f = M_field f"
    and "fieldOp eng f (Prim Undefined) comparatorBuilder = Inr chain"
    and "get_prop eng o1 f = Inr v1" and "get_prop eng o2 f = Inr v2"
  shows "builder_compare eng chain o1 o2 s = NaturalOrder eng v1 v2 s"
proof -
  from assms(2) have "chain = [\<lparr>compareProp = Some f, compare = fieldCompare eng (Prim Undefined)\<rparr>]"
    by (auto simp: fieldOp_def comparatorBuilder_def)
  with assms(3,4) show ?thesis
    by (simp add: compare_single compareKeyValue_def fieldCompare_omitted)
qed

theorem single_field_is_NaturalOrder_witness:
  "proxy_get ''bar'' = M_field ''bar''
   \<and> fieldOp example_engine ''bar'' (Prim Undefined) comparatorBuilder
       = Inr [\<lparr>compareProp = Some ''bar'', compare = fieldCompare example_engine (Prim Undefined)\<rparr>]
   \<and> get_prop example_engine (Obj 1 [(''foo'', Prim (Str ''a'')), (''bar'', Prim (Num (Fin 1)))]) ''bar''
       = Inr (Prim (Num (Fin 1)))
   \<and> get_prop example_engine (Obj 2 [(''foo'', Prim (Str ''a'')), (''bar'', Prim (Num (Fin 3)))]) ''bar''
       = Inr (Prim (Num (Fin 3)))
   \<and> builder_compare example_engine
       [\<lparr>compareProp = Some ''bar'', compare = fieldCompare example_engine (Prim Undefined)\<rparr>]
       (Obj 1 [(''foo'', Prim (Str ''a'')), (''bar'', Prim (Num (Fin 1)))])
       (Obj 2 [(''foo'', Prim (Str ''a'')), (''bar'', Prim (Num (Fin 3)))]) 0
       = NaturalOrder example_engine (Prim (Num (Fin 1))) (Prim (Num (Fin 3))) 0
   \<and> NaturalOrder example_engine (Prim (Num (Fin 1))) (Prim (Num (Fin 3))) 0 = (Inr (Fin (- 1)), 0)"
  using single_field_is_NaturalOrder [of "''bar''" example_engine
      "[\<lparr>compareProp = Some ''bar'', compare = fieldCompare example_engine (Prim Undefined)\<rparr>]"
      "Obj 1 [(''foo'', Prim (Str ''a'')), (''bar'', Prim (Num (Fin 1)))]" "Prim (Num (Fin 1))"
      "Obj 2 [(''foo'', Prim (Str ''a'')), (''bar'', Prim (Num (Fin 3)))]" "Prim (Num (Fin 3))" 0]
  by (simp add: proxy_get_def fieldOp_def comparatorBuilder_def obj_prop_def
      NaturalOrder_def isComparable_def js_gt_def)

lemma NaturalOrder_undefined_both:
  "NaturalOrder eng (Prim Undefined) (Prim Undefined) s = (Inr (Fin 0), s)"
  by (simp add: NaturalOrder_def)

lemma loose_eq_undefined_left: "loose_eq eng (Prim Undefined) v = nullish v"
  by (cases v rule: nullish.cases) simp_all

lemma loose_eq_undefined_right: "loose_eq eng v (Prim Undefined) = nullish v"
  by (cases v rule: nullish.cases) simp_all

lemma NaturalOrder_undefined_first:
  "\<not> nullish v \<Longrightarrow> NaturalOrder eng (Prim Undefined) v s = (Inr (Fin (- 1)), s)"
  by (simp add: NaturalOrder_def loose_eq_undefined_left)

lemma NaturalOrder_undefined_second:
  "\<not> nullish v \<Longrightarrow> NaturalOrder eng v (Prim Undefined) s = (Inr (Fin 1), s)"
  by (simp add: NaturalOrder_def loose_eq_undefined_right)

text \<open>
  C9, as amended. For a field entry made with no argument and two records (objects):
  a record that does not have the field projects to \<open>undefined\<close>; when both
  projections are \<open>undefined\<close> the result is 0; when the first is \<open>undefined\<close> and
  the second is neither \<open>undefined\<close> nor \<open>null\<close> the result is -1; when the second
  is \<open>undefined\<close> and the first is neither \<open>undefined\<close> nor \<open>null\<close> the result is
  1; and nothing is raised.
\<close>

theorem missing_field_natural:
  assumes "proxy_get f = M_field f"
    and "fieldOp eng f (Prim Undefined) comparatorBuilder = Inr chain"
  shows "(map_of ps f = None \<longrightarrow> obj_prop ps f = Prim Undefined)
    \<and> (obj_prop ps1 f = Prim Undefined \<and> obj_prop ps2 f = Prim Undefined \<longrightarrow>
         builder_compare eng chain (Obj i ps1) (Obj j ps2) s = (Inr (Fin 0), s))
    \<and> (obj_prop ps1 f = Prim Undefined \<and> \<not> nullish (obj_prop ps2 f) \<longrightarrow>
         builder_compare eng chain (Obj i ps1) (Obj j ps2) s = (Inr (Fin (- 1)), s))
    \<and> (\<not> nullish (obj_prop ps1 f) \<and> obj_prop ps2 f = Prim Undefined \<longrightarrow>
         builder_compare eng chain (Obj i ps1) (Obj j ps2) s = (Inr (Fin 1), s))"
proof -
  from assms(2) have chain: "chain = [\<lparr>compareProp = Some f, compare = NaturalOrder eng\<rparr>]"
    by (auto simp: fieldOp_def comparatorBuilder_def fieldCompare_omitted)
  show ?thesis
    unfolding chain compare_field_objects
    by (auto simp: obj_prop_def NaturalOrder_undefined_both NaturalOrder_undefined_first
        NaturalOrder_undefined_second)
qed

theorem missing_field_natural_witness:
  "proxy_get ''foo'' = M_field ''foo''
   \<and> fieldOp example_engine ''foo'' (Prim Undefined) comparatorBuilder
       = Inr [\<lparr>compareProp = Some ''foo'', compare = fieldCompare example_engine (Prim Undefined)\<rparr>]
   \<and> map_of ([] :: (string \<times> jsval) list) ''foo'' = None
   \<and> obj_prop [] ''foo'' = Prim Undefined
   \<and> \<not> nullish (obj_prop [(''foo'', Prim (Str ''a''))] ''foo'')
   \<and> builder_compare example_engine
       [\<lparr>compareProp = Some ''foo'', compare = fieldCompare example_engine (Prim Undefined)\<rparr>]
       (Obj 1 []) (Obj 2 []) 0 = (Inr (Fin 0), 0)
   \<and> builder_compare example_engine
       [\<lparr>compareProp = Some ''foo'', compare = fieldCompare example_engine (Prim Undefined)\<rparr>]
       (Obj 1 []) (Obj 2 [(''foo'', Prim (Str ''a''))]) 0 = (Inr (Fin (- 1)), 0)
   \<and> builder_compare example_engine
       [\<lparr>compareProp = Some ''foo'', compare = fieldCompare example_engine (Prim Undefined)\<rparr>]
       (Obj 2 [(''foo'', Prim (Str ''a''))]) (Obj 1 []) 0 = (Inr (Fin 1), 0)"
  using missing_field_natural [of "''foo''" example_engine
      "[\<lparr>compareProp = Some ''foo'', compare = fieldCompare example_engine (Prim Undefined)\<rparr>]"
      "[]" "[]" "[]" 1 2 0]
    missing_field_natural [of "''foo''" example_engine
      "[\<lparr>compareProp = Some ''foo'', compare = fieldCompare example_engine (Prim Undefined)\<rparr>]"
      "[]" "[]" "[(''foo'', Prim (Str ''a''))]" 1 2 0]
    missing_field_natural [of "''foo''" example_engine
      "[\<lparr>compareProp = Some ''foo'', compare = fieldCompare example_engine (Prim Undefined)\<rparr>]"
      "[]" "[(''foo'', Prim (Str ''a''))]" "[]" 2 1 0]
  by (simp add: proxy_get_def fieldOp_def comparatorBuilder_def obj_prop_def)

theorem missing_field_null_counterexample:
  "obj_prop [] ''foo'' = Prim Undefined
   \<and> obj_prop [(''foo'', Prim Null)] ''foo'' = Prim Null
   \<and> fieldOp example_engine ''foo'' (Prim Undefined) comparatorBuilder
       = Inr [\<lparr>compareProp = Some ''foo'', compare = fieldCompare example_engine (Prim Undefined)\<rparr>]
   \<and> builder_compare example_engine
       [\<lparr>compareProp = Some ''foo'', compare = fieldCompare example_engine (Prim Undefined)\<rparr>]
       (Obj 1 []) (Obj 2 [(''foo'', Prim Null)]) 0 = (Inr (Fin 0), 0)"
  by (simp add: obj_prop_def fieldOp_def comparatorBuilder_def compare_field_objects
      fieldCompare_def NaturalOrder_def)

text \<open>
  C1, as amended. A field operation called with an argument that is truthy, not a
  function and not an object with a \<open>compare\<close> (the number 42, say) raises nothing: it
  appends its entry and returns the builder. The entry's compare function, each time it
  runs (so in a later \<open>compare\<close> that reaches the entry), serialises the argument with
  \<open>JSON.stringify\<close> and raises the error \<open>Unknown compare operation\<close> with that
  serialisation; when \<open>JSON.stringify\<close> itself throws, what it throws is raised
  instead. Either way the state is the one the serialisation leaves.
\<close>

theorem unknown_operation_on_compare:
  assumes "proxy_get f = M_field f"
    and "truthy x" and "typeof x \<noteq> ''function''" and "\<not> isComparator x"
  shows "fieldOp eng f x chain
           = Inr (chain @ [\<lparr>compareProp = Some f, compare = fieldCompare eng x\<rparr>])
    \<and> (jsonStringify eng x s = (Inr m, s1) \<longrightarrow>
          fieldCompare eng x v1 v2 s = (Inl (UnknownCompareOperation m), s1)
        \<and> builder_compare eng [\<lparr>compareProp = Some f, compare = fieldCompare eng x\<rparr>]
            (Obj i ps1) (Obj j ps2) s = (Inl (UnknownCompareOperation m), s1))
    \<and> (jsonStringify eng x s = (Inl err, s1) \<longrightarrow>
          fieldCompare eng x v1 v2 s = (Inl err, s1)
        \<and> builder_compare eng [\<lparr>compareProp = Some f, compare = fieldCompare eng x\<rparr>]
            (Obj i ps1) (Obj j ps2) s = (Inl err, s1))"
  using assms(2-4) by (simp add: fieldOp_def compare_field_objects fieldCompare_def)

theorem unknown_operation_on_compare_witness:
  "proxy_get ''foo'' = M_field ''foo''
   \<and> truthy (Prim (Num (Fin 42))) \<and> typeof (Prim (Num (Fin 42))) \<noteq> ''function''
   \<and> \<not> isComparator (Prim (Num (Fin 42)))
   \<and> jsonStringify example_engine (Prim (Num (Fin 42))) 0 = (Inr ''42'', 0)
   \<and> fieldOp example_engine ''foo'' (Prim (Num (Fin 42))) comparatorBuilder
       = Inr [\<lparr>compareProp = Some ''foo'',
               compare = fieldCompare example_engine (Prim (Num (Fin 42)))\<rparr>]
   \<and> builder_compare example_engine
       [\<lparr>compareProp = Some ''foo'', compare = fieldCompare example_engine (Prim (Num (Fin 42)))\<rparr>]
       (Obj 1 [(''foo'', Prim (Str ''a''))]) (Obj 2 [(''foo'', Prim (Str ''b''))]) 0
       = (Inl (UnknownCompareOperation ''42''), 0)
   \<and> truthy (Obj 7 [(''toJSON'', Fun 2)]) \<and> typeof (Obj 7 [(''toJSON'', Fun 2)]) \<noteq> ''function''
   \<and> \<not> isComparator (Obj 7 [(''toJSON'', Fun 2)])
   \<and> jsonStringify example_engine (Obj 7 [(''toJSON'', Fun 2)]) 0
       = (Inl (Thrown (Prim (Str ''not defined''))), 0)
   \<and> builder_compare example_engine
       [\<lparr>compareProp = Some ''foo'',
         compare = fieldCompare example_engine (Obj 7 [(''toJSON'', Fun 2)])\<rparr>]
       (Obj 1 [(''foo'', Prim (Str ''a''))]) (Obj 2 [(''foo'', Prim (Str ''b''))]) 0
       = (Inl (Thrown (Prim (Str ''not defined''))), 0)"
  using unknown_operation_on_compare [of "''foo''" "Prim (Num (Fin 42))" example_engine
      comparatorBuilder 0 "''42''" 0 "Prim Undefined" "Prim Undefined"
      1 "[(''foo'', Prim (Str ''a''))]" 2 "[(''foo'', Prim (Str ''b''))]"]
    unknown_operation_on_compare [of "''foo''" "Obj 7 [(''toJSON'', Fun 2)]" example_engine
      comparatorBuilder 0 _ 0 "Prim Undefined" "Prim Undefined"
      1 "[(''foo'', Prim (Str ''a''))]" 2 "[(''foo'', Prim (Str ''b''))]"
      "Thrown (Prim (Str ''not defined''))"]
  by (simp add: proxy_get_def isComparator_def comparatorBuilder_def obj_prop_def
      example_engine_def example_stringify_def example_callFn_def)

theorem unknown_operation_counterexample:
  "truthy (Prim (Num (Fin 42))) \<and> typeof (Prim (Num (Fin 42))) \<noteq> ''function''
   \<and> \<not> isComparator (Prim (Num (Fin 42)))
   \<and> fieldOp example_engine ''foo'' (Prim (Num (Fin 42))) comparatorBuilder
       = Inr [\<lparr>compareProp = Some ''foo'',
               compare = fieldCompare example_engine (Prim (Num (Fin 42)))\<rparr>]
   \<and> fieldOp example_engine ''foo'' (Prim (Num (Fin 42))) comparatorBuilder
       \<noteq> Inl (UnknownCompareOperation ''42'')"
  by (simp add: isComparator_def fieldOp_def comparatorBuilder_def)

lemma call_value_not_unknown:
  "call_value eng v a b s \<noteq> (Inl (UnknownCompareOperation y), s')"
  by (cases v) (auto split: prod.splits sum.splits)

lemma NaturalOrder_not_unknown:
  "NaturalOrder eng a b s \<noteq> (Inl (UnknownCompareOperation y), s')"
  by (auto simp: NaturalOrder_def call_value_not_unknown
      split: if_splits jsval.splits prim.splits)

text \<open>
  C10. A field operation called with a falsy argument (0, the empty string,
  \<open>false\<close>, \<open>null\<close>, as well as \<open>undefined\<close>) appends to the chain an entry for
  the field whose compare function is \<open>NaturalOrder\<close>, the entry it appends when the
  argument is omitted; and the entry's compare function raises
  \<open>Unknown compare operation\<close> only for an argument that is truthy, not a function and
  not an object with a \<open>compare\<close>.
\<close>

theorem falsy_argument_is_NaturalOrder:
  "\<not> truthy (Prim (Num (Fin 0))) \<and> \<not> truthy (Prim (Str [])) \<and> \<not> truthy (Prim (Bool False))
   \<and> \<not> truthy (Prim Null)
   \<and> (\<not> truthy x \<longrightarrow>
       fieldOp eng f x chain
         = Inr (chain @ [\<lparr>compareProp = Some f, compare = NaturalOrder eng\<rparr>])
     \<and> fieldOp eng f x chain = fieldOp eng f (Prim Undefined) chain
     \<and> fieldCompare eng x = NaturalOrder eng)
   \<and> (fieldCompare eng x o1 o2 s = (Inl (UnknownCompareOperation m), s') \<longrightarrow>
       truthy x \<and> typeof x \<noteq> ''function'' \<and> \<not> isComparator x)"
proof (intro conjI impI)
  assume f: "\<not> truthy x"
  then show eq: "fieldCompare eng x = NaturalOrder eng"
    by (intro ext) (simp add: fieldCompare_def)
  then show "fieldOp eng f x chain
      = Inr (chain @ [\<lparr>compareProp = Some f, compare = NaturalOrder eng\<rparr>])"
    by (simp add: fieldOp_def)
  from eq show "fieldOp eng f x chain = fieldOp eng f (Prim Undefined) chain"
    by (simp add: fieldOp_def fieldCompare_omitted)
next
  assume u: "fieldCompare eng x o1 o2 s = (Inl (UnknownCompareOperation m), s')"
  then show "truthy x" "typeof x \<noteq> ''function''" "\<not> isComparator x"
    by (auto simp: fieldCompare_def NaturalOrder_not_unknown call_value_not_unknown
        split: if_splits jsval.splits)
qed simp_all

theorem falsy_argument_is_NaturalOrder_witness:
  "\<not> truthy (Prim (Num (Fin 0))) \<and> \<not> truthy (Prim (Str [])) \<and> \<not> truthy (Prim (Bool False))
   \<and> \<not> truthy (Prim Null)
   \<and> fieldOp example_engine ''foo'' (Prim (Num (Fin 0))) comparatorBuilder
       = Inr [\<lparr>compareProp = Some ''foo'', compare = NaturalOrder example_engine\<rparr>]
   \<and> fieldOp example_engine ''foo'' (Prim (Str [])) comparatorBuilder
       = Inr [\<lparr>compareProp = Some ''foo'', compare = NaturalOrder example_engine\<rparr>]
   \<and> fieldOp example_engine ''foo'' (Prim (Bool False)) comparatorBuilder
       = Inr [\<lparr>compareProp = Some ''foo'', compare = NaturalOrder example_engine\<rparr>]
   \<and> fieldOp example_engine ''foo'' (Prim Null) comparatorBuilder
       = Inr [\<lparr>compareProp = Some ''foo'', compare = NaturalOrder example_engine\<rparr>]
   \<and> fieldOp example_engine ''foo'' (Prim Null) comparatorBuilder
       = fieldOp example_engine ''foo'' (Prim Undefined) comparatorBuilder
   \<and> fieldCompare example_engine (Prim (Num (Fin 42))) (Prim (Num (Fin 1))) (Prim (Num (Fin 2))) 0
       = (Inl (UnknownCompareOperation ''42''), 0)
   \<and> truthy (Prim (Num (Fin 42))) \<and> typeof (Prim (Num (Fin 42))) \<noteq> ''function''
   \<and> \<not> isComparator (Prim (Num (Fin 42)))"
proof -
  have text42: "jsonStringify example_engine (Prim (Num (Fin 42))) 0 = (Inr ''42'', 0)"
    by (simp add: example_engine_def example_stringify_def)
  have raised: "fieldCompare example_engine (Prim (Num (Fin 42))) (Prim (Num (Fin 1)))
      (Prim (Num (Fin 2))) 0 = (Inl (UnknownCompareOperation ''42''), 0)"
    using text42 by (simp add: fieldCompare_def isComparator_def)
  show ?thesis
    using raised
      falsy_argument_is_NaturalOrder [of "Prim (Num (Fin 0))" example_engine "''foo''" "[]"
        "Prim Null" "Prim Null" 0 "[]" 0]
      falsy_argument_is_NaturalOrder [of "Prim (Str [])" example_engine "''foo''" "[]"
        "Prim Null" "Prim Null" 0 "[]" 0]
      falsy_argument_is_NaturalOrder [of "Prim (Bool False)" example_engine "''foo''" "[]"
        "Prim Null" "Prim Null" 0 "[]" 0]
      falsy_argument_is_NaturalOrder [of "Prim Null" example_engine "''foo''" "[]"
        "Prim Null" "Prim Null" 0 "[]" 0]
      falsy_argument_is_NaturalOrder [of "Prim (Num (Fin 42))" example_engine "''foo''" "[]"
        "Prim (Num (Fin 1))" "Prim (Num (Fin 2))" 0 "''42''" 0]
    unfolding comparatorBuilder_def by force
qed

end
